theory Spec2Isabelle
  imports
    Complex_Main
    "HOL-Library.AList"
    "HOL-Library.Char_ord"
    "HOL-Library.List_Lexorder"
    "HOL-Library.Multiset"
begin

section \<open>Python values\<close>

text \<open>
  The coverage-grid cache of \<^verbatim>\<open>cache_manager.py\<close> and the cache tables of
  \<^verbatim>\<open>models.py\<close>, as a shallow embedding. Python objects that the code only
  passes along or serialises (filter values, heatmap payloads, area ids) are values of
  the type \<open>py\<close>. A \<open>dict\<close> is an association list in insertion order, as Python
  iterates it; a Python \<open>str\<close> is a \<open>string\<close> whose characters are code points
  below 256. Floats are not part of \<open>py\<close>: the filters of this program hold integers,
  strings, \<open>None\<close> and lists of them.
\<close>

datatype py =
    PNone
  | PBool bool
  | PInt int
  | PStr string
  | PList "py list"
  | PDict "(string \<times> py) list"

type_synonym pydict = "(string \<times> py) list"
type_synonym time = int

text \<open>Truth value of an object in a condition (\<^verbatim>\<open>if x:\<close>).\<close>

fun py_truthy :: "py \<Rightarrow> bool" where
  "py_truthy PNone = False"
| "py_truthy (PBool b) = b"
| "py_truthy (PInt i) = (i \<noteq> 0)"
| "py_truthy (PStr s) = (s \<noteq> [])"
| "py_truthy (PList xs) = (xs \<noteq> [])"
| "py_truthy (PDict kvs) = (kvs \<noteq> [])"

text \<open>\<^verbatim>\<open>d.get(k)\<close>: the value, or \<open>None\<close> when the key is absent.\<close>

definition dict_get :: "pydict \<Rightarrow> string \<Rightarrow> py" where
  "dict_get d k = (case map_of d k of None \<Rightarrow> PNone | Some v \<Rightarrow> v)"

text \<open>
  \<^verbatim>\<open>min(xs, key=f)\<close>: the first element, in iteration order, at which \<open>f\<close> is least;
  \<open>None\<close> stands for the \<open>ValueError\<close> on an empty sequence.
\<close>

fun py_min_from :: "('a \<Rightarrow> 'b::linorder) \<Rightarrow> 'a \<Rightarrow> 'a list \<Rightarrow> 'a" where
  "py_min_from f m [] = m"
| "py_min_from f m (x # xs) = py_min_from f (if f x < f m then x else m) xs"

definition py_min :: "('a \<Rightarrow> 'b::linorder) \<Rightarrow> 'a list \<Rightarrow> 'a option" where
  "py_min f xs = (case xs of [] \<Rightarrow> None | x # rest \<Rightarrow> Some (py_min_from f x rest))"

text \<open>\<^verbatim>\<open>xs[::step]\<close> for a positive step: the elements at positions 0, step, 2 step, ...\<close>

fun stride :: "nat \<Rightarrow> 'a list \<Rightarrow> 'a list" where
  "stride n [] = []"
| "stride n (x # xs) = x # stride n (drop (n - 1) xs)"

text \<open>
  \<^verbatim>\<open>xs[::step]\<close> for any integer step; \<open>None\<close> is the \<open>ValueError\<close> of step 0.
  A negative step walks from the last element backwards.
\<close>

definition py_slice_step :: "int \<Rightarrow> 'a list \<Rightarrow> 'a list option" where
  "py_slice_step step xs =
     (if step = 0 then None
      else if 0 < step then Some (stride (nat step) xs)
      else Some (stride (nat (- step)) (rev xs)))"

section \<open>json.dumps\<close>

text \<open>
  \<^verbatim>\<open>json.dumps(obj, sort_keys=...)\<close> with the default separators and
  \<open>ensure_ascii\<close>: decimal integers, quoted strings with the escapes of
  \<open>py_encode_basestring_ascii\<close>, and with \<open>sort_keys\<close> the items of every dict, at
  every depth, ordered by key.
\<close>

definition digit_char :: "nat \<Rightarrow> char" where
  "digit_char d = char_of (48 + d)"

fun show_nat :: "nat \<Rightarrow> string" where
  "show_nat n = (if n < 10 then [digit_char n] else show_nat (n div 10) @ [digit_char (n mod 10)])"

declare show_nat.simps [simp del]

definition show_int :: "int \<Rightarrow> string" where
  "show_int i = (if i < 0 then CHR ''-'' # show_nat (nat (- i)) else show_nat (nat i))"

definition hex_char :: "nat \<Rightarrow> char" where
  "hex_char d = (if d < 10 then char_of (48 + d) else char_of (87 + d))"

definition escape_char :: "char \<Rightarrow> string" where
  "escape_char c =
     (if c = CHR 0x22 then [CHR 0x5C, CHR 0x22]
      else if c = CHR 0x5C then [CHR 0x5C, CHR 0x5C]
      else if c = CHR 0x0A then [CHR 0x5C, CHR ''n'']
      else if c = CHR 0x0D then [CHR 0x5C, CHR ''r'']
      else if c = CHR 0x09 then [CHR 0x5C, CHR ''t'']
      else if c = CHR 0x0C then [CHR 0x5C, CHR ''f'']
      else if c = CHR 0x08 then [CHR 0x5C, CHR ''b'']
      else if (of_char c :: nat) < 32 \<or> 126 < (of_char c :: nat)
        then [CHR 0x5C, CHR ''u'', CHR ''0'', CHR ''0'',
              hex_char (of_char c div 16), hex_char (of_char c mod 16)]
      else [c])"

definition json_string :: "string \<Rightarrow> string" where
  "json_string s = CHR 0x22 # concat (map escape_char s) @ [CHR 0x22]"

fun join :: "string \<Rightarrow> string list \<Rightarrow> string" where
  "join sep [] = []"
| "join sep [x] = x"
| "join sep (x # y # ys) = x @ sep @ join sep (y # ys)"

function dumps :: "bool \<Rightarrow> py \<Rightarrow> string" where
  "dumps sk PNone = ''null''"
| "dumps sk (PBool b) = (if b then ''true'' else ''false'')"
| "dumps sk (PInt i) = show_int i"
| "dumps sk (PStr s) = json_string s"
| "dumps sk (PList xs) = ''['' @ join '', '' (map (dumps sk) xs) @ '']''"
| "dumps sk (PDict kvs) =
     ''{'' @ join '', ''
        (map (\<lambda>kv. json_string (fst kv) @ '': '' @ dumps sk (snd kv))
             (if sk then sort_key fst kvs else kvs)) @ ''}''"
  by pat_completeness auto
termination
proof (relation "measure (\<lambda>(sk, v). size v)")
  show "wf (measure (\<lambda>(sk, v). size v))" by simp
next
  fix sk :: bool and xs :: "py list" and x :: py
  assume "x \<in> set xs"
  then have "size x < size (PList xs)"
    by (induction xs) auto
  then show "((sk, x), (sk, PList xs)) \<in> measure (\<lambda>(sk, v). size v)" by simp
next
  fix sk :: bool and kvs :: "(string \<times> py) list" and kv :: "string \<times> py"
  assume "kv \<in> set (if sk then sort_key fst kvs else kvs)"
  then have "kv \<in> set kvs" by (simp split: if_splits)
  then have "size (snd kv) < size (PDict kvs)"
    by (induction kvs) (auto simp: size_prod_simp)
  then show "((sk, snd kv), (sk, PDict kvs)) \<in> measure (\<lambda>(sk, v). size v)" by simp
qed

section \<open>models.py: generate_cache_key\<close>

text \<open>
  \<^verbatim>\<open>hashlib.md5(key_string.encode()).hexdigest()\<close> is the parameter \<open>md5\<close>: any
  function from the serialised text to the digest.
\<close>

definition generate_cache_key ::
  "(string \<Rightarrow> string) \<Rightarrow> string \<Rightarrow> string list \<Rightarrow> pydict \<Rightarrow> pydict option \<Rightarrow> string" where
  "generate_cache_key md5 city_name business_lines vendor_filters additional_params =
     (let key_data =
        [(''city'', PStr city_name),
         (''business_lines'',
            PList (map PStr (if business_lines \<noteq> [] then sort business_lines else []))),
         (''vendor_filters'', PDict vendor_filters),
         (''additional'',
            PDict (case additional_params of
                     None \<Rightarrow> []
                   | Some d \<Rightarrow> if d \<noteq> [] then d else []))];
        key_string = dumps True (PDict key_data)
      in md5 key_string)"

section \<open>Coverage grids\<close>

text \<open>
  What the external coverage functions of \<^verbatim>\<open>app_optimized\<close> hand over: a coverage
  dict per grid point, of which the cache manager reads the coordinates, the vendor
  count and the count by business line; and what \<^verbatim>\<open>_process_coverage_results\<close> builds
  from it. The four target keys that \<^verbatim>\<open>point_data.update\<close> adds together are one
  optional group. Coordinates and ratios are Python floats in the source and real numbers
  here; the cache only stores and returns them.
\<close>

record coverage =
  lat :: real
  lng :: real
  total_vendors :: int
  by_business_line :: "(string \<times> int) list"

record target_metrics =
  target_business_line :: string
  target_value :: real
  actual_value :: int
  performance_ratio :: real

record point_data =
  point_lat :: real
  point_lng :: real
  point_coverage :: coverage
  marketing_area :: py
  target_analysis :: "target_metrics option"

type_synonym grid = "point_data list"
type_synonym grid_point = "real \<times> real"
type_synonym vendor = pydict

section \<open>models.py: the cache tables of DatabaseManager\<close>

text \<open>
  The tables \<^verbatim>\<open>coverage_grid_cache\<close> and \<^verbatim>\<open>heatmap_cache\<close> as lists of rows, in
  rowid order. The column \<^verbatim>\<open>grid_data\<close> holds the grid itself: the text written by
  \<^verbatim>\<open>json.dumps\<close> is read back by \<^verbatim>\<open>json.loads\<close> as the same grid. A time is a
  number of microseconds since 0001-01-01 00:00:00, the least \<^verbatim>\<open>datetime\<close>. The two
  timestamp columns hold what \<^verbatim>\<open>CURRENT_TIMESTAMP\<close> reads, which is UTC; the methods that
  write them take that reading. Every method takes a flag \<open>fails\<close>: whether sqlite or
  the serialisation raises during the call, in which case \<^verbatim>\<open>get_connection\<close> rolls the
  transaction back and the tables are as before.
\<close>

record coverage_row =
  cg_cache_key :: string
  cg_city_name :: string
  cg_business_line :: string
  cg_vendor_filters :: string
  cg_grid_data :: grid
  cg_point_count :: nat
  cg_created_at :: time
  cg_last_accessed :: time

record heatmap_row =
  hm_cache_key :: string
  hm_heatmap_type :: string
  hm_city_name :: string
  hm_date_range :: string
  hm_business_line :: string
  hm_zoom_level :: int
  hm_heatmap_data :: py
  hm_created_at :: time

record database =
  coverage_grid_cache :: "coverage_row list"
  heatmap_cache :: "heatmap_row list"

datatype error = DatabaseError | RuntimeError | OverflowError

text \<open>
  \<^verbatim>\<open>INSERT OR REPLACE\<close> on the unique \<^verbatim>\<open>cache_key\<close>: the row of that key, if any, is
  deleted and the new row is added, both timestamps taking their default.
\<close>

definition cache_coverage_grid ::
  "bool \<Rightarrow> time \<Rightarrow> string \<Rightarrow> string \<Rightarrow> string \<Rightarrow> pydict \<Rightarrow> grid \<Rightarrow> database
     \<Rightarrow> bool \<times> database" where
  "cache_coverage_grid fails now cache_key city_name business_line vendor_filters grid_data db =
     (if fails then (False, db)
      else (True,
        db\<lparr>coverage_grid_cache :=
             filter (\<lambda>r. cg_cache_key r \<noteq> cache_key) (coverage_grid_cache db) @
             [\<lparr>cg_cache_key = cache_key, cg_city_name = city_name,
               cg_business_line = business_line,
               cg_vendor_filters = dumps False (PDict vendor_filters),
               cg_grid_data = grid_data, cg_point_count = length grid_data,
               cg_created_at = now, cg_last_accessed = now\<rparr>]\<rparr>))"

definition get_cached_coverage_grid ::
  "bool \<Rightarrow> time \<Rightarrow> string \<Rightarrow> database \<Rightarrow> grid option \<times> database" where
  "get_cached_coverage_grid fails now cache_key db =
     (if fails then (None, db)
      else (case find (\<lambda>r. cg_cache_key r = cache_key) (coverage_grid_cache db) of
              None \<Rightarrow> (None, db)
            | Some result \<Rightarrow>
                (Some (cg_grid_data result),
                 db\<lparr>coverage_grid_cache :=
                      map (\<lambda>r. if cg_cache_key r = cache_key
                                then r\<lparr>cg_last_accessed := now\<rparr> else r)
                          (coverage_grid_cache db)\<rparr>)))"

text \<open>
  \<^verbatim>\<open>timedelta(days=d)\<close> in microseconds, the resolution of \<^verbatim>\<open>datetime\<close>; the
  constructor raises \<open>OverflowError\<close>, here \<open>None\<close>, beyond 999999999 days.
\<close>

definition timedelta_days :: "int \<Rightarrow> time" where
  "timedelta_days d = d * 86400000000"









section \<open>cache_manager.py: CoverageGridCacheManager\<close>

record CoverageGridTask =
  city_name :: string
  business_lines :: "string list"
  vendor_filters :: pydict
  priority :: int
  created_at :: time

record mem_entry =
  data :: grid
  last_accessed :: time
  access_count :: nat

text \<open>
  The fields of the manager that change after \<^verbatim>\<open>__init__\<close>. \<open>memory_cache\<close> is the
  dict in insertion order. \<open>executor_shutdown\<close> and \<open>submitted\<close> are the state of the
  \<^verbatim>\<open>ThreadPoolExecutor\<close> that the manager can observe: whether \<^verbatim>\<open>shutdown\<close> was called,
  and how many workers were submitted. \<open>db_manager\<close> is the database behind the
  \<^verbatim>\<open>DatabaseManager\<close>. \<open>engine_calls\<close> counts the calls of
  \<^verbatim>\<open>_calculate_coverage_grid\<close>; the code has no such counter, it is there to state how
  often the computation runs.
\<close>

record manager =
  preload_queue :: "CoverageGridTask list"
  is_preloading :: bool
  memory_cache :: "(string \<times> mem_entry) list"
  executor_shutdown :: bool
  submitted :: nat
  db_manager :: database
  engine_calls :: nat

definition max_memory_cache_size :: nat where
  "max_memory_cache_size = 50"

definition init_manager :: "database \<Rightarrow> manager" where
  "init_manager db =
     \<lparr>preload_queue = [], is_preloading = False, memory_cache = [],
      executor_shutdown = False, submitted = 0, db_manager = db, engine_calls = 0\<rparr>"

definition calculate_priority :: "string \<Rightarrow> string list \<Rightarrow> pydict \<Rightarrow> int" where
  "calculate_priority city bls filters =
     (let priority = 3;
          priority = (if city = ''tehran'' then priority - 1 else priority);
          priority = (if ''restaurant'' \<in> set bls then priority - 1 else priority);
          priority = (if length bls = 1 then priority - 1 else priority);
          priority = (if dict_get filters ''grades'' = PList [PStr ''A+'']
                      then priority - 1 else priority)
      in max 1 (min 5 priority))"

definition common_filters :: "pydict list" where
  "common_filters =
     [[(''status_ids'', PList [PInt 5]), (''grades'', PList [PStr ''A'', PStr ''A+'']),
       (''visible'', PInt 1), (''is_open'', PNone)],
      [(''status_ids'', PList [PInt 5]), (''grades'', PList [PStr ''A+'']),
       (''visible'', PInt 1), (''is_open'', PInt 1)],
      [(''status_ids'', PList [PInt 4, PInt 5]),
       (''grades'', PList [PStr ''A'', PStr ''A+'', PStr ''B'']),
       (''visible'', PInt 1), (''is_open'', PNone)]]"

text \<open>A combination is the dict with the keys city_name, business_lines, vendor_filters, priority.\<close>

type_synonym combination = "string \<times> string list \<times> pydict \<times> int"

definition define_common_combinations :: "combination list" where
  "define_common_combinations =
     (let cities = [''tehran'', ''mashhad'', ''shiraz''];
          business_lines =
            [[''restaurant''], [''coffee''], [''bakery''], [''supermarket''],
             [''restaurant'', ''coffee''], [''restaurant'', ''bakery'']]
      in concat (map (\<lambda>city.
           concat (map (\<lambda>bl_combo.
             map (\<lambda>filter_combo.
                    (city, bl_combo, filter_combo,
                     calculate_priority city bl_combo filter_combo))
                 common_filters) business_lines)) cities))"

definition common_combinations :: "combination list" where
  "common_combinations = define_common_combinations"

subsection \<open>The computation\<close>

text \<open>
  The functions that \<^verbatim>\<open>_calculate_coverage_grid\<close> calls and that are not part of the
  two files: the vendor query and the three functions of \<^verbatim>\<open>app_optimized\<close>, with the
  two configuration values. Each returns \<open>None\<close> when it raises.
\<close>

record engine =
  get_vendors :: "string \<Rightarrow> string list \<Rightarrow> py \<Rightarrow> py \<Rightarrow> py \<Rightarrow> py \<Rightarrow> vendor list option"
  generate_coverage_grid :: "string \<Rightarrow> int \<Rightarrow> grid_point list option"
  find_marketing_area_for_points :: "grid_point list \<Rightarrow> string \<Rightarrow> (py \<times> py) list option"
  calculate_coverage_for_grid_vectorized ::
    "grid_point list \<Rightarrow> vendor list \<Rightarrow> string \<Rightarrow> coverage list option"
  GRID_SIZE_METERS :: int
  MAX_GRID_POINTS :: int

text \<open>
  The loop of \<^verbatim>\<open>_process_coverage_results\<close> from index \<open>i\<close> on, for any
  \<open>target_lookup\<close>; the method itself runs it with the empty lookup, see below.
\<close>

fun process_loop ::
  "((py \<times> string) \<times> real) list \<Rightarrow> (py \<times> py) list \<Rightarrow> string list \<Rightarrow> nat
     \<Rightarrow> coverage list \<Rightarrow> grid" where
  "process_loop target_lookup point_area_info bls i [] = []"
| "process_loop target_lookup point_area_info bls i (coverage # rest) =
     (if total_vendors coverage > 0 then
        (let (area_id, area_name) =
               (if i < length point_area_info then point_area_info ! i else (PNone, PNone));
             point = \<lparr>point_lat = lat coverage, point_lng = lng coverage,
                      point_coverage = coverage, marketing_area = area_name,
                      target_analysis = None\<rparr>;
             point =
               (if target_lookup \<noteq> [] \<and> py_truthy area_id \<and> length bls = 1 then
                  (case map_of target_lookup (area_id, bls ! 0) of
                     None \<Rightarrow> point
                   | Some target \<Rightarrow>
                       (let actual =
                              (case map_of (by_business_line coverage) (bls ! 0) of
                                 None \<Rightarrow> 0 | Some n \<Rightarrow> n)
                        in point\<lparr>target_analysis := Some
                             \<lparr>target_business_line = bls ! 0,
                              target_value = target,
                              actual_value = actual,
                              performance_ratio =
                                (if target > 0 then real_of_int actual / target else 2)\<rparr>\<rparr>))
                else point)
         in [point])
      else [])
     @ process_loop target_lookup point_area_info bls (Suc i) rest"

text \<open>
  In the method the branch that would load the targets is \<^verbatim>\<open>pass\<close>: \<open>target_lookup\<close>
  stays the empty dict for every city and every list of business lines.
\<close>

definition process_coverage_results ::
  "coverage list \<Rightarrow> (py \<times> py) list \<Rightarrow> string list \<Rightarrow> string \<Rightarrow> grid" where
  "process_coverage_results coverage_results point_area_info bls city =
     (let target_lookup = (if city = ''tehran'' \<and> length bls = 1 then [] else [])
      in process_loop target_lookup point_area_info bls 0 coverage_results)"

text \<open>
  \<open>None\<close> is the \<^verbatim>\<open>return None\<close> of the \<^verbatim>\<open>except\<close> branch, reached from any of the
  calls and from the division by a zero \<^verbatim>\<open>MAX_GRID_POINTS\<close>.
\<close>

definition calculate_coverage_grid ::
  "engine \<Rightarrow> string \<Rightarrow> string list \<Rightarrow> pydict \<Rightarrow> grid option" where
  "calculate_coverage_grid E city bls filters =
     (case get_vendors E city bls (dict_get filters ''status_ids'') (dict_get filters ''grades'')
             (dict_get filters ''visible'') (dict_get filters ''is_open'') of
        None \<Rightarrow> None
      | Some vendors_df \<Rightarrow>
          if vendors_df = [] then Some []
          else (case generate_coverage_grid E city (GRID_SIZE_METERS E) of
             None \<Rightarrow> None
           | Some grid_points \<Rightarrow>
               if grid_points = [] then Some []
               else (case (if int (length grid_points) > MAX_GRID_POINTS E then
                             (if MAX_GRID_POINTS E = 0 then None
                              else py_slice_step
                                     (int (length grid_points) div MAX_GRID_POINTS E)
                                     grid_points)
                           else Some grid_points) of
                  None \<Rightarrow> None
                | Some grid_points \<Rightarrow>
                    (case find_marketing_area_for_points E grid_points city of
                       None \<Rightarrow> None
                     | Some point_area_info \<Rightarrow>
                         (case calculate_coverage_for_grid_vectorized E grid_points
                                 vendors_df city of
                            None \<Rightarrow> None
                          | Some coverage_results \<Rightarrow>
                              Some (process_coverage_results coverage_results
                                      point_area_info bls city))))))"

subsection \<open>The memory cache\<close>

text \<open>
  \<open>oldest_key\<close> is the local variable of \<^verbatim>\<open>_add_to_memory_cache\<close>. \<^verbatim>\<open>min\<close> cannot
  raise there: the dict has at least 50 entries.
\<close>

definition oldest_key :: "(string \<times> mem_entry) list \<Rightarrow> string option" where
  "oldest_key mc = map_option fst (py_min (\<lambda>kv. last_accessed (snd kv)) mc)"

definition add_to_memory_cache :: "time \<Rightarrow> string \<Rightarrow> grid \<Rightarrow> manager \<Rightarrow> manager" where
  "add_to_memory_cache now cache_key grid_data s =
     (let mc = memory_cache s;
          mc = (if length mc \<ge> max_memory_cache_size then
                  (case oldest_key mc of
                     None \<Rightarrow> mc
                   | Some k \<Rightarrow> AList.delete k mc)
                else mc)
      in s\<lparr>memory_cache :=
             AList.update cache_key
               \<lparr>data = grid_data, last_accessed = now, access_count = 1\<rparr> mc\<rparr>)"

definition update_memory_cache_access :: "time \<Rightarrow> string \<Rightarrow> manager \<Rightarrow> manager" where
  "update_memory_cache_access now cache_key s =
     s\<lparr>memory_cache :=
         AList.map_entry cache_key
           (\<lambda>e. e\<lparr>last_accessed := now, access_count := access_count e + 1\<rparr>)
           (memory_cache s)\<rparr>"

subsection \<open>The preload queue\<close>

definition task_key :: "(string \<Rightarrow> string) \<Rightarrow> CoverageGridTask \<Rightarrow> string" where
  "task_key md5 t = generate_cache_key md5 (city_name t) (business_lines t) (vendor_filters t) None"

definition add_to_preload_queue ::
  "(string \<Rightarrow> string) \<Rightarrow> time \<Rightarrow> string \<Rightarrow> string list \<Rightarrow> pydict \<Rightarrow> manager \<Rightarrow> manager" where
  "add_to_preload_queue md5 now city bls filters s =
     (let task = \<lparr>city_name = city, business_lines = bls, vendor_filters = filters,
                  priority = calculate_priority city bls filters, created_at = now\<rparr>;
          cache_key = generate_cache_key md5 city bls filters None;
          existing_keys = map (task_key md5) (preload_queue s)
      in if cache_key \<notin> set existing_keys
         then s\<lparr>preload_queue := sort_key priority (preload_queue s @ [task])\<rparr>
         else s)"

definition task_of_combination :: "time \<Rightarrow> combination \<Rightarrow> CoverageGridTask" where
  "task_of_combination now combo =
     (case combo of (city, bls, filters, p) \<Rightarrow>
        \<lparr>city_name = city, business_lines = bls, vendor_filters = filters,
         priority = p, created_at = now\<rparr>)"

text \<open>
  \<^verbatim>\<open>start_preloading\<close>: the flag and the queue are written before \<^verbatim>\<open>submit\<close>, which
  raises \<open>RuntimeError\<close> on an executor that was shut down. The result is the exception,
  if any, and the state the call leaves.
\<close>

definition start_preloading :: "time \<Rightarrow> manager \<Rightarrow> (error + unit) \<times> manager" where
  "start_preloading now s =
     (if is_preloading s then (Inr (), s)
      else
        (let s = s\<lparr>is_preloading := True\<rparr>;
             s = s\<lparr>preload_queue :=
                     preload_queue s @ map (task_of_combination now) common_combinations\<rparr>;
             s = s\<lparr>preload_queue := sort_key priority (preload_queue s)\<rparr>
         in if executor_shutdown s then (Inl RuntimeError, s)
            else (Inr (), s\<lparr>submitted := submitted s + 1\<rparr>)))"

definition stop_preloading :: "manager \<Rightarrow> manager" where
  "stop_preloading s = s\<lparr>is_preloading := False, executor_shutdown := True\<rparr>"

subsection \<open>get_or_calculate_coverage_grid\<close>

text \<open>
  What one call meets: the time, and whether the database read and write raise. The
  memory cache stamps its entries with \<^verbatim>\<open>datetime.now()\<close> and the table stamps its rows
  with \<^verbatim>\<open>CURRENT_TIMESTAMP\<close>; a stamp of one kind is never compared with one of the
  other kind, and \<open>now\<close> stands for both readings.
\<close>

record io =
  now :: time
  db_read_fails :: bool
  db_write_fails :: bool

definition grid_truthy :: "grid option \<Rightarrow> bool" where
  "grid_truthy g = (case g of None \<Rightarrow> False | Some ps \<Rightarrow> ps \<noteq> [])"

definition get_or_calculate_coverage_grid ::
  "(string \<Rightarrow> string) \<Rightarrow> engine \<Rightarrow> io \<Rightarrow> string \<Rightarrow> string list \<Rightarrow> pydict \<Rightarrow> bool
     \<Rightarrow> manager \<Rightarrow> grid option \<times> manager" where
  "get_or_calculate_coverage_grid md5 E io city bls filters force_recalculate s =
     (let cache_key = generate_cache_key md5 city bls filters None in
      if \<not> force_recalculate \<and> map_of (memory_cache s) cache_key \<noteq> None then
        (let s = update_memory_cache_access (now io) cache_key s
         in (map_option data (map_of (memory_cache s) cache_key), s))
      else
        (let (cached_data, db) =
               (if \<not> force_recalculate
                then get_cached_coverage_grid (db_read_fails io) (now io) cache_key (db_manager s)
                else (None, db_manager s));
             s = s\<lparr>db_manager := db\<rparr>
         in if \<not> force_recalculate \<and> grid_truthy cached_data then
              (case cached_data of
                 None \<Rightarrow> (None, s)
               | Some g \<Rightarrow> (Some g, add_to_memory_cache (now io) cache_key g s))
            else
              (let s = add_to_preload_queue md5 (now io) city bls filters s;
                   grid_data = calculate_coverage_grid E city bls filters;
                   s = s\<lparr>engine_calls := engine_calls s + 1\<rparr>
               in if grid_truthy grid_data then
                    (case grid_data of
                       None \<Rightarrow> (None, s)
                     | Some g \<Rightarrow>
                         (let (ok, db) =
                                cache_coverage_grid (db_write_fails io) (now io) cache_key city
                                  (join '','' bls) filters g (db_manager s);
                              s = s\<lparr>db_manager := db\<rparr>
                          in (Some g, add_to_memory_cache (now io) cache_key g s)))
                  else (grid_data, s))))"

section \<open>Example states\<close>

text \<open>Concrete inputs on which the theorems below are evaluated.\<close>

definition empty_database :: database where
  "empty_database = \<lparr>coverage_grid_cache = [], heatmap_cache = []\<rparr>"

text \<open>A sequence of calls of \<^verbatim>\<open>_add_to_memory_cache\<close>: time, key and grid of each.\<close>

definition run_puts :: "(time \<times> string \<times> grid) list \<Rightarrow> manager \<Rightarrow> manager" where
  "run_puts puts s =
     fold (\<lambda>p. add_to_memory_cache (fst p) (fst (snd p)) (snd (snd p))) puts s"

definition example_puts :: "nat \<Rightarrow> (time \<times> string \<times> grid) list" where
  "example_puts n = map (\<lambda>i. (int i, show_nat i, [])) [0..<n]"

definition full_cache :: manager where
  "full_cache = run_puts (example_puts 50) (init_manager empty_database)"

definition small_cache :: manager where
  "small_cache = run_puts (example_puts 3) (init_manager empty_database)"

text \<open>A scored grid point, and the grid of one point that the post-processing makes of it.\<close>

definition example_coverage :: coverage where
  "example_coverage =
     \<lparr>lat = 35, lng = 51, total_vendors = 5, by_business_line = [(''restaurant'', 5)]\<rparr>"

definition example_grid :: grid where
  "example_grid =
     [\<lparr>point_lat = 35, point_lng = 51, point_coverage = example_coverage,
       marketing_area = PStr ''district 1'', target_analysis = None\<rparr>]"

text \<open>
  Two rows of each cache table, last touched on day 739000 (in the year 2024) and ten
  days before; and the time of day 739000.
\<close>

definition example_day :: time where
  "example_day = timedelta_days 739000"

definition example_row :: "string \<Rightarrow> time \<Rightarrow> coverage_row" where
  "example_row k t =
     \<lparr>cg_cache_key = k, cg_city_name = ''tehran'', cg_business_line = ''restaurant'',
      cg_vendor_filters = ''{}'', cg_grid_data = example_grid, cg_point_count = 1,
      cg_created_at = t, cg_last_accessed = t\<rparr>"

definition example_heatmap :: "string \<Rightarrow> time \<Rightarrow> heatmap_row" where
  "example_heatmap k t =
     \<lparr>hm_cache_key = k, hm_heatmap_type = ''orders'', hm_city_name = ''tehran'',
      hm_date_range = ''all'', hm_business_line = ''restaurant'', hm_zoom_level = 11,
      hm_heatmap_data = PList [], hm_created_at = t\<rparr>"

definition aged_database :: database where
  "aged_database =
     \<lparr>coverage_grid_cache =
        [example_row ''a'' (timedelta_days 738990), example_row ''b'' example_day],
      heatmap_cache =
        [example_heatmap ''c'' (timedelta_days 738990), example_heatmap ''d'' example_day]\<rparr>"

section \<open>Post-processing with target data\<close>

text \<open>
  Follows the spec's words, not the code: "when exactly one business line is requested
  for a designated target-bearing city, attach target-vs-actual performance metrics",
  for target data \<open>targets\<close> keyed by area id and business line. It is the loop of
  the method run with \<open>targets\<close> as the lookup in that case, to be compared with
  \<open>process_coverage_results\<close>.
\<close>

definition spec_process_coverage_results ::
  "((py \<times> string) \<times> real) list \<Rightarrow> coverage list \<Rightarrow> (py \<times> py) list \<Rightarrow> string list
     \<Rightarrow> string \<Rightarrow> grid" where
  "spec_process_coverage_results targets coverage_results point_area_info bls city =
     process_loop (if city = ''tehran'' \<and> length bls = 1 then targets else [])
       point_area_info bls 0 coverage_results"

definition example_targets :: "((py \<times> string) \<times> real) list" where
  "example_targets = [((PInt 1, ''restaurant''), 10)]"

section \<open>Example computations\<close>

text \<open>
  A digest function and three engines for the evaluations below: one whose vendor query
  finds nothing, one whose vendor query raises, and one that scores a single grid point.
\<close>

definition example_md5 :: "string \<Rightarrow> string" where
  "example_md5 s = s"

definition no_vendor_engine :: engine where
  "no_vendor_engine =
     \<lparr>get_vendors = (\<lambda>city bls status_ids grades visible is_open. Some []),
      generate_coverage_grid = (\<lambda>city size. Some []),
      find_marketing_area_for_points = (\<lambda>points city. Some []),
      calculate_coverage_for_grid_vectorized = (\<lambda>points vendors city. Some []),
      GRID_SIZE_METERS = 200, MAX_GRID_POINTS = 5000\<rparr>"

definition failing_engine :: engine where
  "failing_engine =
     \<lparr>get_vendors = (\<lambda>city bls status_ids grades visible is_open. None),
      generate_coverage_grid = (\<lambda>city size. Some []),
      find_marketing_area_for_points = (\<lambda>points city. Some []),
      calculate_coverage_for_grid_vectorized = (\<lambda>points vendors city. Some []),
      GRID_SIZE_METERS = 200, MAX_GRID_POINTS = 5000\<rparr>"

definition one_point_engine :: engine where
  "one_point_engine =
     \<lparr>get_vendors = (\<lambda>city bls status_ids grades visible is_open.
        Some [[(''vendor_code'', PStr ''v1'')]]),
      generate_coverage_grid = (\<lambda>city size. Some [(35, 51)]),
      find_marketing_area_for_points = (\<lambda>points city. Some [(PInt 1, PStr ''district 1'')]),
      calculate_coverage_for_grid_vectorized = (\<lambda>points vendors city. Some [example_coverage]),
      GRID_SIZE_METERS = 200, MAX_GRID_POINTS = 5000\<rparr>"

definition example_io :: "time \<Rightarrow> io" where
  "example_io t = \<lparr>now = t, db_read_fails = False, db_write_fails = False\<rparr>"

text \<open>A table whose one row holds an empty grid under the key of an example request.\<close>

definition stale_database :: database where
  "stale_database =
     \<lparr>coverage_grid_cache =
        [\<lparr>cg_cache_key = generate_cache_key example_md5 ''tehran'' [''restaurant''] [] None,
          cg_city_name = ''tehran'', cg_business_line = ''restaurant'',
          cg_vendor_filters = ''{}'', cg_grid_data = [], cg_point_count = 0,
          cg_created_at = 0, cg_last_accessed = 0\<rparr>],
      heatmap_cache = []\<rparr>"

section \<open>Reordering the keys of a dict\<close>

text \<open>
  Two objects that differ only in the order of the items of dicts, at any depth. A dict
  has each key once, so the permuted items have distinct keys. The relation is used to
  state that \<open>generate_cache_key\<close> does not depend on that order.
\<close>

inductive reordered :: "py \<Rightarrow> py \<Rightarrow> bool" where
  same: "reordered v v"
| items: "distinct (map fst kvs) \<Longrightarrow> mset kvs' = mset kvs \<Longrightarrow> reordered (PDict kvs) (PDict kvs')"
| in_dict: "reordered v v' \<Longrightarrow> reordered (PDict (xs @ (k, v) # ys)) (PDict (xs @ (k, v') # ys))"
| in_list: "reordered v v' \<Longrightarrow> reordered (PList (vs @ v # ws)) (PList (vs @ v' # ws))"
| chain: "reordered a b \<Longrightarrow> reordered b c \<Longrightarrow> reordered a c"

text \<open>The text of one item of a dict in \<open>dumps\<close> with sorted keys.\<close>

definition item_text :: "string \<times> py \<Rightarrow> string" where
  "item_text kv = json_string (fst kv) @ '': '' @ dumps True (snd kv)"

section \<open>Properties of the memory cache\<close>

lemma py_min_from_mem: "py_min_from f m xs \<in> set (m # xs)"
  by (induction xs arbitrary: m) (auto split: if_splits)

lemma py_min_from_le: "y \<in> set (m # xs) \<Longrightarrow> f (py_min_from f m xs) \<le> f y"
proof (induction xs arbitrary: m y)
  case Nil
  then show ?case by simp
next
  case (Cons x xs)
  have step: "f (py_min_from f (if f x < f m then x else m) xs) \<le> f z"
    if "z \<in> set ((if f x < f m then x else m) # xs)" for z
    using Cons.IH that by blast
  have low: "f (py_min_from f (if f x < f m then x else m) xs) \<le> f (if f x < f m then x else m)"
    by (rule step) simp
  from Cons.prems consider "y = m" | "y = x" | "y \<in> set xs" by auto
  then show ?case
  proof cases
    case 1
    with low show ?thesis by (auto split: if_splits)
  next
    case 2
    with low show ?thesis by (auto split: if_splits)
  next
    case 3
    then show ?thesis using step [of y] by simp
  qed
qed

lemma oldest_key_Some:
  assumes "mc \<noteq> []"
  shows "\<exists>k e. oldest_key mc = Some k \<and> (k, e) \<in> set mc \<and>
           (\<forall>kv \<in> set mc. last_accessed e \<le> last_accessed (snd kv))"
proof -
  from assms obtain x rest where mc: "mc = x # rest" by (cases mc) auto
  let ?m = "py_min_from (\<lambda>kv. last_accessed (snd kv)) x rest"
  have "?m \<in> set mc" unfolding mc by (rule py_min_from_mem)
  moreover have "\<forall>kv \<in> set mc. last_accessed (snd ?m) \<le> last_accessed (snd kv)"
    unfolding mc using py_min_from_le [where f = "\<lambda>kv. last_accessed (snd kv)"] by blast
  moreover have "oldest_key mc = Some (fst ?m)"
    by (simp add: oldest_key_def py_min_def mc)
  ultimately show ?thesis by (metis prod.collapse)
qed

lemma length_update_le: "length (AList.update k v al) \<le> Suc (length al)"
  by (induction al) auto

lemma length_delete_less: "k \<in> fst ` set al \<Longrightarrow> length (AList.delete k al) < length al"
  by (auto simp: AList.delete_eq intro!: length_filter_less)

lemma add_to_memory_cache_length:
  assumes "length (memory_cache s) \<le> max_memory_cache_size"
  shows "length (memory_cache (add_to_memory_cache t k g s)) \<le> max_memory_cache_size"
proof (cases "length (memory_cache s) \<ge> max_memory_cache_size")
  case True
  then have ne: "memory_cache s \<noteq> []" by (auto simp: max_memory_cache_size_def)
  from oldest_key_Some [OF ne] obtain ko eo where
    ko: "oldest_key (memory_cache s) = Some ko" "(ko, eo) \<in> set (memory_cache s)" by blast
  then have "length (AList.delete ko (memory_cache s)) < length (memory_cache s)"
    by (intro length_delete_less) force
  with assms have "Suc (length (AList.delete ko (memory_cache s))) \<le> max_memory_cache_size"
    by simp
  with True ko show ?thesis
    using length_update_le [of k _ "AList.delete ko (memory_cache s)"]
    by (simp add: add_to_memory_cache_def Let_def) (meson le_trans)
next
  case False
  then show ?thesis
    using length_update_le [of k _ "memory_cache s"]
    by (simp add: add_to_memory_cache_def Let_def) (meson le_trans not_less_eq_eq not_le)
qed

lemma add_to_memory_cache_distinct:
  "distinct (map fst (memory_cache s)) \<Longrightarrow>
   distinct (map fst (memory_cache (add_to_memory_cache t k g s)))"
  by (simp add: add_to_memory_cache_def Let_def distinct_update distinct_delete split: option.splits)

lemma run_puts_inv:
  "length (memory_cache s) \<le> max_memory_cache_size \<and> distinct (map fst (memory_cache s)) \<Longrightarrow>
   length (memory_cache (run_puts puts s)) \<le> max_memory_cache_size \<and>
   distinct (map fst (memory_cache (run_puts puts s)))"
  unfolding run_puts_def
  by (induction puts arbitrary: s)
     (simp_all add: add_to_memory_cache_length add_to_memory_cache_distinct)

lemma full_cache_length: "length (memory_cache full_cache) = 50"
  by code_simp

lemma full_cache_oldest: "oldest_key (memory_cache full_cache) = Some ''0''"
  by code_simp

text \<open>
  C4. After any sequence of inserts into the empty memory cache the cache holds at most
  50 entries; and when the next insert finds it full, the key it evicts is one whose
  entry has the least \<open>last_accessed\<close> of all entries, and the insert removes that
  entry and no other.
\<close>

theorem memory_cache_bound_and_lru_eviction:
  assumes "s = run_puts puts (init_manager db)"
  shows "length (memory_cache s) \<le> 50 \<and>
    (\<forall>t k g. length (memory_cache s) \<ge> 50 \<longrightarrow>
       (\<exists>ko eo. oldest_key (memory_cache s) = Some ko \<and>
          map_of (memory_cache s) ko = Some eo \<and>
          (\<forall>kv \<in> set (memory_cache s). last_accessed eo \<le> last_accessed (snd kv)) \<and>
          map_of (memory_cache (add_to_memory_cache t k g s)) =
            ((map_of (memory_cache s))(ko := None))
              (k \<mapsto> \<lparr>data = g, last_accessed = t, access_count = 1\<rparr>)))"
proof -
  have "length (memory_cache (init_manager db)) \<le> max_memory_cache_size \<and>
        distinct (map fst (memory_cache (init_manager db)))"
    by (simp add: init_manager_def)
  from run_puts_inv [OF this, of puts] assms
  have len: "length (memory_cache s) \<le> 50" and dist: "distinct (map fst (memory_cache s))"
    by (simp_all add: max_memory_cache_size_def)
  have full: "\<exists>ko eo. oldest_key (memory_cache s) = Some ko \<and>
          map_of (memory_cache s) ko = Some eo \<and>
          (\<forall>kv \<in> set (memory_cache s). last_accessed eo \<le> last_accessed (snd kv)) \<and>
          map_of (memory_cache (add_to_memory_cache t k g s)) =
            ((map_of (memory_cache s))(ko := None))
              (k \<mapsto> \<lparr>data = g, last_accessed = t, access_count = 1\<rparr>)"
    if "length (memory_cache s) \<ge> 50" for t k g
  proof -
    from that have "memory_cache s \<noteq> []" by auto
    from oldest_key_Some [OF this] obtain ko eo where
      ko: "oldest_key (memory_cache s) = Some ko" "(ko, eo) \<in> set (memory_cache s)"
        "\<forall>kv \<in> set (memory_cache s). last_accessed eo \<le> last_accessed (snd kv)"
      by blast
    from ko(2) dist have "map_of (memory_cache s) ko = Some eo" by simp
    moreover have "map_of (memory_cache (add_to_memory_cache t k g s)) =
            ((map_of (memory_cache s))(ko := None))
              (k \<mapsto> \<lparr>data = g, last_accessed = t, access_count = 1\<rparr>)"
      using that ko(1)
      by (simp add: add_to_memory_cache_def max_memory_cache_size_def Let_def
            AList.update_conv' AList.delete_conv')
    ultimately show ?thesis using ko(1,3) by blast
  qed
  from len full show ?thesis by blast
qed

theorem memory_cache_bound_and_lru_eviction_witness:
  "full_cache = run_puts (example_puts 50) (init_manager empty_database) \<and>
   length (memory_cache full_cache) \<ge> 50 \<and>
   length (memory_cache full_cache) \<le> 50 \<and>
   oldest_key (memory_cache full_cache) = Some ''0'' \<and>
   map_of (memory_cache (add_to_memory_cache 50 ''50'' [] full_cache)) ''0'' = None"
proof -
  have run: "full_cache = run_puts (example_puts 50) (init_manager empty_database)"
    by (simp add: full_cache_def)
  from memory_cache_bound_and_lru_eviction [OF run] full_cache_length
  obtain ko where "oldest_key (memory_cache full_cache) = Some ko"
    and "map_of (memory_cache (add_to_memory_cache 50 ''50'' [] full_cache)) =
         ((map_of (memory_cache full_cache))(ko := None))
           (''50'' \<mapsto> \<lparr>data = [], last_accessed = 50, access_count = 1\<rparr>)"
    by (metis order_refl)
  with full_cache_oldest
  have "map_of (memory_cache (add_to_memory_cache 50 ''50'' [] full_cache)) ''0'' = None"
    by simp
  with run full_cache_length full_cache_oldest show ?thesis by simp
qed

text \<open>
  C5, as stated, fails: the full cache of the example holds the keys 0 to 49, and
  inserting the present key 7 again removes the entry of the other key 0.
\<close>

theorem put_present_key_at_capacity_counterexample:
  "length (memory_cache full_cache) = 50 \<and>
   ''7'' \<in> fst ` set (memory_cache full_cache) \<and>
   ''0'' \<in> fst ` set (memory_cache full_cache) \<and>
   ''0'' \<notin> fst ` set (memory_cache (add_to_memory_cache 100 ''7'' [] full_cache))"
  by code_simp

text \<open>
  C5, amended. An insert evicts only when the cache holds at least 50 entries, whether
  or not the inserted key is present. Below 50 entries every entry of another key is left
  as it was. At 50 entries the entry of \<open>oldest_key\<close> is removed, unless that is the
  inserted key, and every entry of a third key is left as it was.
\<close>

theorem put_evicts_only_at_capacity:
  "(length (memory_cache s) < 50 \<longrightarrow>
      (\<forall>k'. k' \<noteq> k \<longrightarrow>
         map_of (memory_cache (add_to_memory_cache t k g s)) k' = map_of (memory_cache s) k')) \<and>
   (length (memory_cache s) \<ge> 50 \<longrightarrow>
      (\<exists>ko. oldest_key (memory_cache s) = Some ko \<and>
         (\<forall>k'. k' \<noteq> k \<longrightarrow> k' \<noteq> ko \<longrightarrow>
            map_of (memory_cache (add_to_memory_cache t k g s)) k' = map_of (memory_cache s) k') \<and>
         (ko \<noteq> k \<longrightarrow> map_of (memory_cache (add_to_memory_cache t k g s)) ko = None)))"
proof (intro conjI impI)
  assume "length (memory_cache s) < 50"
  then show "\<forall>k'. k' \<noteq> k \<longrightarrow>
         map_of (memory_cache (add_to_memory_cache t k g s)) k' = map_of (memory_cache s) k'"
    by (simp add: add_to_memory_cache_def max_memory_cache_size_def Let_def AList.update_conv')
next
  assume full: "length (memory_cache s) \<ge> 50"
  then have "memory_cache s \<noteq> []" by auto
  from oldest_key_Some [OF this] obtain ko where ko: "oldest_key (memory_cache s) = Some ko"
    by blast
  with full have "map_of (memory_cache (add_to_memory_cache t k g s)) =
      ((map_of (memory_cache s))(ko := None))
        (k \<mapsto> \<lparr>data = g, last_accessed = t, access_count = 1\<rparr>)"
    by (simp add: add_to_memory_cache_def max_memory_cache_size_def Let_def
          AList.update_conv' AList.delete_conv')
  with ko show "\<exists>ko. oldest_key (memory_cache s) = Some ko \<and>
         (\<forall>k'. k' \<noteq> k \<longrightarrow> k' \<noteq> ko \<longrightarrow>
            map_of (memory_cache (add_to_memory_cache t k g s)) k' = map_of (memory_cache s) k') \<and>
         (ko \<noteq> k \<longrightarrow> map_of (memory_cache (add_to_memory_cache t k g s)) ko = None)"
    by simp
qed

lemma small_cache_length: "length (memory_cache small_cache) = 3"
  by code_simp

theorem put_evicts_only_at_capacity_witness:
  "length (memory_cache small_cache) < 50 \<and> ''0'' \<noteq> ''1'' \<and>
   map_of (memory_cache (add_to_memory_cache 9 ''1'' [] small_cache)) ''0'' =
     map_of (memory_cache small_cache) ''0'' \<and>
   length (memory_cache full_cache) \<ge> 50 \<and>
   oldest_key (memory_cache full_cache) = Some ''0'' \<and> ''0'' \<noteq> ''7'' \<and>
   map_of (memory_cache (add_to_memory_cache 100 ''7'' [] full_cache)) ''0'' = None"
proof -
  have "map_of (memory_cache (add_to_memory_cache 9 ''1'' [] small_cache)) ''0'' =
     map_of (memory_cache small_cache) ''0''"
    using put_evicts_only_at_capacity [of small_cache "''1''" 9 "[]"] small_cache_length
    by simp
  moreover have "map_of (memory_cache (add_to_memory_cache 100 ''7'' [] full_cache)) ''0'' = None"
    using put_evicts_only_at_capacity [of full_cache "''7''" 100 "[]"]
      full_cache_length full_cache_oldest
    by simp
  ultimately show ?thesis
    using small_cache_length full_cache_length full_cache_oldest by simp
qed

section \<open>Properties of the cache tables\<close>






section \<open>Properties of the preload queue\<close>

text \<open>
  C10, as stated, fails for the calls after the first: on a fresh manager,
  \<^verbatim>\<open>stop_preloading\<close> and a first \<^verbatim>\<open>start_preloading\<close> raise, and the second
  \<^verbatim>\<open>start_preloading\<close> returns without an exception, because the failed start left
  \<open>is_preloading\<close> true.
\<close>

theorem second_start_after_stop_counterexample:
  "fst (start_preloading 1 (stop_preloading (init_manager empty_database))) = Inl RuntimeError \<and>
   fst (start_preloading 2
          (snd (start_preloading 1 (stop_preloading (init_manager empty_database))))) = Inr ()"
  by (simp add: start_preloading_def stop_preloading_def init_manager_def Let_def)

text \<open>
  C10, amended. A \<^verbatim>\<open>start_preloading\<close> right after \<^verbatim>\<open>stop_preloading\<close> raises, and
  the state it leaves has \<open>is_preloading\<close> set and the common combinations added to
  the queue, sorted by priority. A further \<^verbatim>\<open>start_preloading\<close> on that state returns
  with no exception and no change. A \<^verbatim>\<open>start_preloading\<close> on an executor that was shut
  down submits no worker and leaves the executor shut down. What a worker does that was
  submitted before the stop is not part of the statement.
\<close>

theorem start_preloading_after_stop:
  "fst (start_preloading t (stop_preloading s)) = Inl RuntimeError \<and>
   is_preloading (snd (start_preloading t (stop_preloading s))) \<and>
   preload_queue (snd (start_preloading t (stop_preloading s))) =
     sort_key priority (preload_queue s @ map (task_of_combination t) common_combinations) \<and>
   start_preloading t' (snd (start_preloading t (stop_preloading s))) =
     (Inr (), snd (start_preloading t (stop_preloading s))) \<and>
   (executor_shutdown s \<longrightarrow>
      executor_shutdown (snd (start_preloading t s)) \<and>
      submitted (snd (start_preloading t s)) = submitted s)"
  by (simp add: start_preloading_def stop_preloading_def Let_def)

lemma length_common_combinations: "length common_combinations = 54"
  by (simp add: common_combinations_def define_common_combinations_def common_filters_def)

theorem start_preloading_after_stop_witness:
  "executor_shutdown (stop_preloading (init_manager empty_database)) \<and>
   submitted (snd (start_preloading 1 (stop_preloading (init_manager empty_database)))) = 0 \<and>
   length (preload_queue (snd (start_preloading 1 (stop_preloading (init_manager empty_database)))))
     = 54"
proof -
  have sd: "executor_shutdown (stop_preloading (init_manager empty_database))"
    by (simp add: stop_preloading_def)
  have "submitted (snd (start_preloading 1 (stop_preloading (init_manager empty_database)))) =
        submitted (stop_preloading (init_manager empty_database))"
    using start_preloading_after_stop [of 1 "stop_preloading (init_manager empty_database)"] sd
    by simp
  moreover have "preload_queue (snd (start_preloading 1 (stop_preloading (init_manager empty_database))))
     = sort_key priority (preload_queue (init_manager empty_database) @
         map (task_of_combination 1) common_combinations)"
    using start_preloading_after_stop [of 1 "init_manager empty_database"] by simp
  ultimately show ?thesis
    using sd by (simp add: stop_preloading_def init_manager_def length_common_combinations)
qed

text \<open>
  The check of \<^verbatim>\<open>_add_to_preload_queue\<close>: a request whose key is pending leaves the
  manager as it is, and the keys of the queue stay distinct.
\<close>

lemma add_to_preload_queue_pending:
  assumes "generate_cache_key md5 city bls filters None \<in> task_key md5 ` set (preload_queue s)"
  shows "add_to_preload_queue md5 t city bls filters s = s"
  using assms by (simp add: add_to_preload_queue_def Let_def)

lemma add_to_preload_queue_distinct:
  assumes "distinct (map (task_key md5) (preload_queue s))"
  shows "distinct (map (task_key md5)
           (preload_queue (add_to_preload_queue md5 t city bls filters s)))"
proof (cases "generate_cache_key md5 city bls filters None \<in> task_key md5 ` set (preload_queue s)")
  case True
  with assms show ?thesis by (simp add: add_to_preload_queue_pending)
next
  case False
  let ?task = "\<lparr>city_name = city, business_lines = bls, vendor_filters = filters,
                  priority = calculate_priority city bls filters, created_at = t\<rparr>"
  have "mset (map (task_key md5) (sort_key priority (preload_queue s @ [?task]))) =
        mset (map (task_key md5) (preload_queue s @ [?task]))"
    by (simp only: mset_map mset_sort)
  moreover have "distinct (map (task_key md5) (preload_queue s @ [?task]))"
    using assms False by (simp add: task_key_def)
  ultimately have "distinct (map (task_key md5) (sort_key priority (preload_queue s @ [?task])))"
    using mset_eq_imp_distinct_iff by blast
  with False show ?thesis by (simp add: add_to_preload_queue_def Let_def)
qed

lemma hd_common_combinations:
  "(''tehran'', [''restaurant''], hd common_filters,
      calculate_priority ''tehran'' [''restaurant''] (hd common_filters))
     \<in> set common_combinations"
  by (simp add: common_combinations_def define_common_combinations_def common_filters_def)

lemma preload_queue_after_miss:
  assumes "map_of (memory_cache s) (generate_cache_key md5 city bls filters None) = None"
    and "find (\<lambda>r. cg_cache_key r = generate_cache_key md5 city bls filters None)
           (coverage_grid_cache (db_manager s)) = None"
  shows "preload_queue (snd (get_or_calculate_coverage_grid md5 E io city bls filters False s)) =
         preload_queue (add_to_preload_queue md5 (now io) city bls filters s)"
  using assms
  by (simp add: get_or_calculate_coverage_grid_def get_cached_coverage_grid_def Let_def
        grid_truthy_def add_to_memory_cache_def add_to_preload_queue_def
        cache_coverage_grid_def split: option.splits prod.splits)

text \<open>
  C3 fails on the code. \<^verbatim>\<open>_add_to_preload_queue\<close> checks the pending keys before it
  appends, \<^verbatim>\<open>start_preloading\<close> appends the common combinations unchecked: on a fresh
  manager, a cache miss for tehran, restaurant and the first common filter queues one
  task, and \<^verbatim>\<open>start_preloading\<close> then queues a second task with the same key,
  whatever the digest function and the computation are.
\<close>

theorem start_preloading_duplicates_pending_task:
  "\<not> distinct (map (task_key md5)
      (preload_queue
         (snd (start_preloading 2
            (snd (get_or_calculate_coverage_grid md5 E
                    \<lparr>now = 1, db_read_fails = False, db_write_fails = False\<rparr>
                    ''tehran'' [''restaurant''] (hd common_filters) False
                    (init_manager empty_database)))))))"
proof -
  let ?f = "hd common_filters"
  let ?s1 = "snd (get_or_calculate_coverage_grid md5 E
                    \<lparr>now = 1, db_read_fails = False, db_write_fails = False\<rparr>
                    ''tehran'' [''restaurant''] ?f False (init_manager empty_database))"
  let ?t = "\<lparr>city_name = ''tehran'', business_lines = [''restaurant''], vendor_filters = ?f,
             priority = calculate_priority ''tehran'' [''restaurant''] ?f, created_at = 1\<rparr>"
  let ?seeds = "map (task_of_combination 2) common_combinations"
  have q1: "preload_queue ?s1 = [?t]"
    by (subst preload_queue_after_miss)
       (simp_all add: init_manager_def empty_database_def add_to_preload_queue_def)
  have np: "\<not> is_preloading ?s1"
    by (simp add: get_or_calculate_coverage_grid_def get_cached_coverage_grid_def Let_def
        grid_truthy_def add_to_memory_cache_def add_to_preload_queue_def init_manager_def
        empty_database_def cache_coverage_grid_def split: option.splits prod.splits)
  have q2: "preload_queue (snd (start_preloading 2 ?s1)) = sort_key priority (?t # ?seeds)"
    using np q1 by (simp add: start_preloading_def Let_def)
  have "task_of_combination 2 (''tehran'', [''restaurant''], ?f,
          calculate_priority ''tehran'' [''restaurant''] ?f) \<in> set ?seeds"
    unfolding set_map using hd_common_combinations by (rule imageI)
  then have "task_key md5 ?t \<in> set (map (task_key md5) ?seeds)"
    by (force simp: task_key_def task_of_combination_def)
  then have "\<not> distinct (map (task_key md5) (?t # ?seeds))" by simp
  moreover have "mset (map (task_key md5) (sort_key priority (?t # ?seeds))) =
                 mset (map (task_key md5) (?t # ?seeds))"
    by (simp only: mset_map mset_sort)
  ultimately show ?thesis
    unfolding q2 using mset_eq_imp_distinct_iff by blast
qed

section \<open>Properties of the post-processing\<close>

text \<open>
  C8, as stated, fails: for tehran and the one business line restaurant, with a target
  of 10 for area 1, a point of area 1 with 5 restaurant vendors would carry the metrics
  with ratio 5 / 10; the method attaches nothing to it.
\<close>

theorem no_target_metrics_counterexample:
  "map target_analysis
     (spec_process_coverage_results example_targets [example_coverage]
        [(PInt 1, PStr ''district 1'')] [''restaurant''] ''tehran'') =
     [Some \<lparr>target_business_line = ''restaurant'', target_value = 10, actual_value = 5,
            performance_ratio = 1 / 2\<rparr>] \<and>
   map target_analysis
     (process_coverage_results [example_coverage]
        [(PInt 1, PStr ''district 1'')] [''restaurant''] ''tehran'') = [None]"
  by (simp add: spec_process_coverage_results_def process_coverage_results_def
        example_targets_def example_coverage_def)

lemma process_loop_empty_lookup:
  "map target_analysis (process_loop [] pai bls i cov) =
     map (\<lambda>c. None) (filter (\<lambda>c. total_vendors c > 0) cov) \<and>
   map point_coverage (process_loop [] pai bls i cov) = filter (\<lambda>c. total_vendors c > 0) cov"
  by (induction cov arbitrary: i) (auto simp: Let_def split: prod.splits)

text \<open>
  C8, amended. \<^verbatim>\<open>_process_coverage_results\<close> attaches target-vs-actual metrics to no
  point, for any city and any business lines, tehran with one business line included:
  the lookup of targets is never loaded. The points it keeps are those with at least
  one vendor, in order.
\<close>

theorem process_coverage_results_attaches_no_targets:
  "(\<forall>p \<in> set (process_coverage_results coverage_results point_area_info bls city).
      target_analysis p = None) \<and>
   map point_coverage (process_coverage_results coverage_results point_area_info bls city) =
     filter (\<lambda>c. total_vendors c > 0) coverage_results"
proof -
  have "map target_analysis (process_coverage_results coverage_results point_area_info bls city) =
     map (\<lambda>c. None) (filter (\<lambda>c. total_vendors c > 0) coverage_results)"
    by (simp add: process_coverage_results_def process_loop_empty_lookup)
  then have "target_analysis ` set (process_coverage_results coverage_results point_area_info bls city)
      \<subseteq> {None}"
    by (metis (no_types, lifting) image_subsetI list.set_map imageE singletonI set_map)
  then show ?thesis
    by (auto simp: process_coverage_results_def process_loop_empty_lookup)
qed

theorem process_coverage_results_attaches_no_targets_witness:
  "process_coverage_results [example_coverage] [(PInt 1, PStr ''district 1'')]
      [''restaurant''] ''tehran'' =
     example_grid \<and>
   target_analysis (hd (process_coverage_results [example_coverage]
      [(PInt 1, PStr ''district 1'')] [''restaurant''] ''tehran'')) = None"
proof -
  have r: "process_coverage_results [example_coverage] [(PInt 1, PStr ''district 1'')]
      [''restaurant''] ''tehran'' =
     example_grid"
    by (simp add: process_coverage_results_def example_coverage_def example_grid_def)
  then have "hd (process_coverage_results [example_coverage] [(PInt 1, PStr ''district 1'')]
      [''restaurant''] ''tehran'') \<in> set (process_coverage_results [example_coverage]
      [(PInt 1, PStr ''district 1'')] [''restaurant''] ''tehran'')"
    by (simp add: example_grid_def)
  with process_coverage_results_attaches_no_targets
      [of "[example_coverage]" "[(PInt 1, PStr ''district 1'')]" "[''restaurant'']" "''tehran''"]
  have "target_analysis (hd (process_coverage_results [example_coverage]
      [(PInt 1, PStr ''district 1'')] [''restaurant''] ''tehran'')) = None"
    by blast
  with r show ?thesis by blast
qed

section \<open>Properties of get_or_calculate_coverage_grid\<close>

lemma add_to_memory_cache_frame [simp]:
  "preload_queue (add_to_memory_cache t k g s) = preload_queue s"
  "is_preloading (add_to_memory_cache t k g s) = is_preloading s"
  "db_manager (add_to_memory_cache t k g s) = db_manager s"
  "engine_calls (add_to_memory_cache t k g s) = engine_calls s"
  by (simp_all add: add_to_memory_cache_def Let_def)

lemma add_to_memory_cache_lookup [simp]:
  "map_of (memory_cache (add_to_memory_cache t k g s)) k =
     Some \<lparr>data = g, last_accessed = t, access_count = 1\<rparr>"
  by (simp add: add_to_memory_cache_def Let_def AList.update_conv')

lemma update_memory_cache_access_frame [simp]:
  "preload_queue (update_memory_cache_access t k s) = preload_queue s"
  "is_preloading (update_memory_cache_access t k s) = is_preloading s"
  "db_manager (update_memory_cache_access t k s) = db_manager s"
  "engine_calls (update_memory_cache_access t k s) = engine_calls s"
  by (simp_all add: update_memory_cache_access_def)

lemma update_memory_cache_access_lookup:
  "map_of (memory_cache (update_memory_cache_access t k s)) k =
     map_option (\<lambda>e. e\<lparr>last_accessed := t, access_count := access_count e + 1\<rparr>)
       (map_of (memory_cache s) k)"
  by (simp add: update_memory_cache_access_def AList.map_of_map_entry split: option.splits)

lemma add_to_preload_queue_frame [simp]:
  "memory_cache (add_to_preload_queue md5 t city bls filters s) = memory_cache s"
  "is_preloading (add_to_preload_queue md5 t city bls filters s) = is_preloading s"
  "db_manager (add_to_preload_queue md5 t city bls filters s) = db_manager s"
  "engine_calls (add_to_preload_queue md5 t city bls filters s) = engine_calls s"
  by (simp_all add: add_to_preload_queue_def Let_def)

lemma get_or_calculate_memory_hit:
  assumes "map_of (memory_cache s) (generate_cache_key md5 city bls filters None) = Some e"
  shows "get_or_calculate_coverage_grid md5 E io city bls filters False s =
     (Some (data e),
      update_memory_cache_access (now io) (generate_cache_key md5 city bls filters None) s)"
  using assms
  by (simp add: get_or_calculate_coverage_grid_def Let_def update_memory_cache_access_lookup)

lemma get_or_calculate_leaves_result_in_memory:
  assumes "get_or_calculate_coverage_grid md5 E io city bls filters force s = (Some g, s1)"
    and "g \<noteq> []"
  shows "\<exists>e. map_of (memory_cache s1) (generate_cache_key md5 city bls filters None) = Some e \<and>
              data e = g"
  using assms
  by (auto simp: get_or_calculate_coverage_grid_def Let_def update_memory_cache_access_lookup
        grid_truthy_def split: if_splits option.splits prod.splits)

text \<open>
  C1, amended. If a call with \<open>force_recalculate\<close> false returns a non-empty grid,
  a second call with the same city, business lines and filters and \<open>force_recalculate\<close>
  false returns the same grid from the memory cache: it changes nothing but the access
  time and count of the entry of the key, so it does not run the computation, whatever
  the engine would answer, and does not touch the database.
\<close>

theorem second_call_served_from_cache:
  assumes "get_or_calculate_coverage_grid md5 E io city bls filters False s = (Some g, s1)"
    and "g \<noteq> []"
  shows "\<exists>s2. get_or_calculate_coverage_grid md5 E' io' city bls filters False s1 = (Some g, s2) \<and>
           s2 = update_memory_cache_access (now io')
                  (generate_cache_key md5 city bls filters None) s1 \<and>
           engine_calls s2 = engine_calls s1 \<and>
           db_manager s2 = db_manager s1"
proof -
  from get_or_calculate_leaves_result_in_memory [OF assms] obtain e where
    "map_of (memory_cache s1) (generate_cache_key md5 city bls filters None) = Some e"
    "data e = g" by blast
  then show ?thesis
    by (simp add: get_or_calculate_memory_hit)
qed


lemmas eval_defs =
  get_or_calculate_coverage_grid_def init_manager_def empty_database_def
  get_cached_coverage_grid_def cache_coverage_grid_def calculate_coverage_grid_def
  process_coverage_results_def grid_truthy_def example_io_def Let_def

text \<open>
  C1, as stated, fails: a first call that completes with the empty grid caches nothing,
  and the second identical call runs the computation again.
\<close>

theorem empty_result_recomputed_counterexample:
  "fst (get_or_calculate_coverage_grid example_md5 no_vendor_engine (example_io 1)
          ''shiraz'' [''coffee''] [] False (init_manager empty_database)) = Some [] \<and>
   engine_calls (init_manager empty_database) = 0 \<and>
   engine_calls (snd (get_or_calculate_coverage_grid example_md5 no_vendor_engine (example_io 1)
          ''shiraz'' [''coffee''] [] False (init_manager empty_database))) = 1 \<and>
   engine_calls (snd (get_or_calculate_coverage_grid example_md5 no_vendor_engine (example_io 2)
          ''shiraz'' [''coffee''] [] False
          (snd (get_or_calculate_coverage_grid example_md5 no_vendor_engine (example_io 1)
             ''shiraz'' [''coffee''] [] False (init_manager empty_database))))) = 2"
  by (simp add: eval_defs no_vendor_engine_def)

theorem second_call_served_from_cache_witness:
  "fst (get_or_calculate_coverage_grid example_md5 one_point_engine (example_io 1)
          ''tehran'' [''restaurant''] [] False (init_manager empty_database)) =
     Some example_grid \<and>
   fst (get_or_calculate_coverage_grid example_md5 failing_engine (example_io 2)
          ''tehran'' [''restaurant''] [] False
          (snd (get_or_calculate_coverage_grid example_md5 one_point_engine (example_io 1)
             ''tehran'' [''restaurant''] [] False (init_manager empty_database)))) =
     Some example_grid \<and>
   engine_calls (snd (get_or_calculate_coverage_grid example_md5 failing_engine (example_io 2)
          ''tehran'' [''restaurant''] [] False
          (snd (get_or_calculate_coverage_grid example_md5 one_point_engine (example_io 1)
             ''tehran'' [''restaurant''] [] False (init_manager empty_database))))) = 1"
proof -
  let ?g = "example_grid"
  let ?c1 = "get_or_calculate_coverage_grid example_md5 one_point_engine (example_io 1)
          ''tehran'' [''restaurant''] [] False (init_manager empty_database)"
  have r: "fst ?c1 = Some ?g"
    by (simp add: eval_defs one_point_engine_def example_coverage_def example_grid_def)
  have n: "engine_calls (snd ?c1) = 1"
    by (simp add: eval_defs one_point_engine_def example_coverage_def)
  from r have eq: "?c1 = (Some ?g, snd ?c1)" by (metis prod.collapse)
  have ne: "?g \<noteq> []" by (simp add: example_grid_def)
  from second_call_served_from_cache [OF eq ne, of failing_engine "example_io 2"] r n
  show ?thesis by auto
qed

text \<open>
  C2, as stated, fails: on a fresh manager with an engine that finds no vendors, the call
  returns the empty grid and leaves the memory cache and the table empty, and the second
  identical call is the second run of the computation.
\<close>

theorem empty_result_not_cached_counterexample:
  "fst (get_or_calculate_coverage_grid example_md5 no_vendor_engine (example_io 1)
          ''tehran'' [''restaurant''] (hd common_filters) False (init_manager empty_database))
     = Some [] \<and>
   memory_cache (snd (get_or_calculate_coverage_grid example_md5 no_vendor_engine (example_io 1)
          ''tehran'' [''restaurant''] (hd common_filters) False (init_manager empty_database)))
     = [] \<and>
   coverage_grid_cache (db_manager
       (snd (get_or_calculate_coverage_grid example_md5 no_vendor_engine (example_io 1)
          ''tehran'' [''restaurant''] (hd common_filters) False (init_manager empty_database))))
     = [] \<and>
   engine_calls (snd (get_or_calculate_coverage_grid example_md5 no_vendor_engine (example_io 2)
          ''tehran'' [''restaurant''] (hd common_filters) False
          (snd (get_or_calculate_coverage_grid example_md5 no_vendor_engine (example_io 1)
             ''tehran'' [''restaurant''] (hd common_filters) False
             (init_manager empty_database))))) = 2"
  by (simp add: eval_defs no_vendor_engine_def)

lemma get_or_calculate_miss:
  assumes "map_of (memory_cache s) (generate_cache_key md5 city bls filters None) = None"
    and "\<forall>r \<in> set (coverage_grid_cache (db_manager s)).
           cg_cache_key r \<noteq> generate_cache_key md5 city bls filters None"
    and "\<not> grid_truthy (calculate_coverage_grid E city bls filters)"
  shows "get_or_calculate_coverage_grid md5 E io city bls filters False s =
     (calculate_coverage_grid E city bls filters,
      (add_to_preload_queue md5 (now io) city bls filters s)
        \<lparr>engine_calls := engine_calls s + 1\<rparr>)"
proof -
  from assms(2) have "find (\<lambda>r. cg_cache_key r = generate_cache_key md5 city bls filters None)
      (coverage_grid_cache (db_manager s)) = None"
    by (simp add: find_None_iff)
  with assms(1,3) show ?thesis
    by (simp add: get_or_calculate_coverage_grid_def get_cached_coverage_grid_def Let_def
          grid_truthy_def)
qed

text \<open>
  C2, amended. When neither tier holds the key and the computation returns the empty
  grid, the call returns the empty grid (not \<open>None\<close>) and writes nothing: the memory
  cache and the database are as before. A repeated identical call therefore runs the
  computation again, twice for two calls, and again returns the empty grid.
\<close>

theorem empty_result_is_not_cached:
  assumes "calculate_coverage_grid E city bls filters = Some []"
    and "map_of (memory_cache s) (generate_cache_key md5 city bls filters None) = None"
    and "\<forall>r \<in> set (coverage_grid_cache (db_manager s)).
           cg_cache_key r \<noteq> generate_cache_key md5 city bls filters None"
  shows "\<exists>s1 s2.
     get_or_calculate_coverage_grid md5 E io city bls filters False s = (Some [], s1) \<and>
     memory_cache s1 = memory_cache s \<and> db_manager s1 = db_manager s \<and>
     engine_calls s1 = engine_calls s + 1 \<and>
     get_or_calculate_coverage_grid md5 E io' city bls filters False s1 = (Some [], s2) \<and>
     memory_cache s2 = memory_cache s \<and> db_manager s2 = db_manager s \<and>
     engine_calls s2 = engine_calls s + 2"
proof -
  let ?s1 = "(add_to_preload_queue md5 (now io) city bls filters s)
        \<lparr>engine_calls := engine_calls s + 1\<rparr>"
  let ?s2 = "(add_to_preload_queue md5 (now io') city bls filters ?s1)
        \<lparr>engine_calls := engine_calls ?s1 + 1\<rparr>"
  have nt: "\<not> grid_truthy (calculate_coverage_grid E city bls filters)"
    using assms(1) by (simp add: grid_truthy_def)
  have c1: "get_or_calculate_coverage_grid md5 E io city bls filters False s = (Some [], ?s1)"
    using get_or_calculate_miss [OF assms(2,3) nt] assms(1) by simp
  have m1: "map_of (memory_cache ?s1) (generate_cache_key md5 city bls filters None) = None"
    using assms(2) by (simp add: add_to_preload_queue_def Let_def)
  have d1: "\<forall>r \<in> set (coverage_grid_cache (db_manager ?s1)).
           cg_cache_key r \<noteq> generate_cache_key md5 city bls filters None"
    using assms(3) by (simp add: add_to_preload_queue_def Let_def)
  have c2: "get_or_calculate_coverage_grid md5 E io' city bls filters False ?s1 = (Some [], ?s2)"
    using get_or_calculate_miss [OF m1 d1 nt] assms(1) by simp
  have "memory_cache ?s1 = memory_cache s \<and> db_manager ?s1 = db_manager s \<and>
     engine_calls ?s1 = engine_calls s + 1 \<and>
     memory_cache ?s2 = memory_cache s \<and> db_manager ?s2 = db_manager s \<and>
     engine_calls ?s2 = engine_calls s + 2"
    by (simp add: add_to_preload_queue_def Let_def)
  with c1 c2 show ?thesis by blast
qed

theorem empty_result_is_not_cached_witness:
  "calculate_coverage_grid no_vendor_engine ''mashhad'' [''bakery''] [] = Some [] \<and>
   (\<exists>s1 s2.
     get_or_calculate_coverage_grid example_md5 no_vendor_engine (example_io 1)
       ''mashhad'' [''bakery''] [] False (init_manager empty_database) = (Some [], s1) \<and>
     memory_cache s1 = [] \<and> coverage_grid_cache (db_manager s1) = [] \<and>
     get_or_calculate_coverage_grid example_md5 no_vendor_engine (example_io 2)
       ''mashhad'' [''bakery''] [] False s1 = (Some [], s2) \<and>
     engine_calls s2 = 2)"
proof -
  have e: "calculate_coverage_grid no_vendor_engine ''mashhad'' [''bakery''] [] = Some []"
    by (simp add: calculate_coverage_grid_def no_vendor_engine_def)
  have m: "map_of (memory_cache (init_manager empty_database))
             (generate_cache_key example_md5 ''mashhad'' [''bakery''] [] None) = None"
    by (simp add: init_manager_def)
  have d: "\<forall>r \<in> set (coverage_grid_cache (db_manager (init_manager empty_database))).
             cg_cache_key r \<noteq> generate_cache_key example_md5 ''mashhad'' [''bakery''] [] None"
    by (simp add: init_manager_def empty_database_def)
  from empty_result_is_not_cached [OF e m d, of "example_io 1" "example_io 2"]
  obtain s1 s2 where
    "get_or_calculate_coverage_grid example_md5 no_vendor_engine (example_io 1)
       ''mashhad'' [''bakery''] [] False (init_manager empty_database) = (Some [], s1)"
    "memory_cache s1 = memory_cache (init_manager empty_database)"
    "db_manager s1 = db_manager (init_manager empty_database)"
    "get_or_calculate_coverage_grid example_md5 no_vendor_engine (example_io 2)
       ''mashhad'' [''bakery''] [] False s1 = (Some [], s2)"
    "engine_calls s2 = engine_calls (init_manager empty_database) + 2"
    by blast
  then have "get_or_calculate_coverage_grid example_md5 no_vendor_engine (example_io 1)
       ''mashhad'' [''bakery''] [] False (init_manager empty_database) = (Some [], s1) \<and>
     memory_cache s1 = [] \<and> coverage_grid_cache (db_manager s1) = [] \<and>
     get_or_calculate_coverage_grid example_md5 no_vendor_engine (example_io 2)
       ''mashhad'' [''bakery''] [] False s1 = (Some [], s2) \<and>
     engine_calls s2 = 2"
    by (simp add: init_manager_def empty_database_def)
  with e show ?thesis by blast
qed

text \<open>
  The table never holds an empty grid if it held none before: the manager writes a row
  only for a non-empty grid.
\<close>

lemma get_or_calculate_rows_nonempty:
  assumes "\<forall>r \<in> set (coverage_grid_cache (db_manager s)). cg_grid_data r \<noteq> []"
  shows "\<forall>r \<in> set (coverage_grid_cache (db_manager
            (snd (get_or_calculate_coverage_grid md5 E io city bls filters force s)))).
           cg_grid_data r \<noteq> []"
  using assms
  by (auto simp: get_or_calculate_coverage_grid_def get_cached_coverage_grid_def
        cache_coverage_grid_def Let_def grid_truthy_def
        split: if_splits option.splits prod.splits)

lemma get_cached_coverage_grid_rows:
  "map (cg_last_accessed_update (\<lambda>_. 0))
     (coverage_grid_cache (snd (get_cached_coverage_grid fails t k db))) =
   map (cg_last_accessed_update (\<lambda>_. 0)) (coverage_grid_cache db) \<and>
   heatmap_cache (snd (get_cached_coverage_grid fails t k db)) = heatmap_cache db"
  by (simp add: get_cached_coverage_grid_def split: option.splits)

lemma find_Some_mem: "find P xs = Some x \<Longrightarrow> x \<in> set xs \<and> P x"
  by (induction xs) (auto split: if_splits)

lemma get_cached_coverage_grid_miss:
  "fst (get_cached_coverage_grid fails t k db) = None \<Longrightarrow>
   snd (get_cached_coverage_grid fails t k db) = db"
  by (simp add: get_cached_coverage_grid_def split: option.splits if_splits)

lemma get_cached_coverage_grid_state:
  "snd (get_cached_coverage_grid False t k db) =
     db\<lparr>coverage_grid_cache :=
          map (\<lambda>row. if cg_cache_key row = k then row\<lparr>cg_last_accessed := t\<rparr> else row)
              (coverage_grid_cache db)\<rparr>"
proof (cases "find (\<lambda>r. cg_cache_key r = k) (coverage_grid_cache db)")
  case None
  then have "map (\<lambda>row. if cg_cache_key row = k then row\<lparr>cg_last_accessed := t\<rparr> else row)
              (coverage_grid_cache db) = coverage_grid_cache db"
    by (intro map_idI) (auto simp: find_None_iff)
  with None show ?thesis by (simp add: get_cached_coverage_grid_def)
next
  case (Some row)
  then show ?thesis by (simp add: get_cached_coverage_grid_def)
qed

lemma example_key_fresh:
  "''a'' \<noteq> generate_cache_key example_md5 ''tehran'' [''restaurant''] [] None \<and>
   ''b'' \<noteq> generate_cache_key example_md5 ''tehran'' [''restaurant''] [] None"
  by code_simp

text \<open>
  C7, as stated, fails for the persistent table: when the table holds a row with an empty
  grid under the key, a call without \<open>force_recalculate\<close> looks the row up, which
  sets its \<open>last_accessed\<close> from 0 to the time 5 of the call, finds the grid empty,
  runs the computation, which fails, and returns \<open>None\<close>.
\<close>

theorem failed_computation_bumps_last_accessed_counterexample:
  "calculate_coverage_grid failing_engine ''tehran'' [''restaurant''] [] = None \<and>
   fst (get_or_calculate_coverage_grid example_md5 failing_engine (example_io 5)
          ''tehran'' [''restaurant''] [] False (init_manager stale_database)) = None \<and>
   engine_calls (snd (get_or_calculate_coverage_grid example_md5 failing_engine (example_io 5)
          ''tehran'' [''restaurant''] [] False (init_manager stale_database))) = 1 \<and>
   map cg_last_accessed (coverage_grid_cache (db_manager (init_manager stale_database))) = [0] \<and>
   map cg_last_accessed (coverage_grid_cache (db_manager
       (snd (get_or_calculate_coverage_grid example_md5 failing_engine (example_io 5)
          ''tehran'' [''restaurant''] [] False (init_manager stale_database))))) = [5]"
  by (simp add: get_or_calculate_coverage_grid_def init_manager_def stale_database_def
        get_cached_coverage_grid_def calculate_coverage_grid_def grid_truthy_def
        example_io_def Let_def failing_engine_def)

text \<open>
  C7, amended. If a call runs the computation and the computation fails, the call returns
  \<open>None\<close>, with or without \<open>force_recalculate\<close>. The memory cache is as before. No
  row of either table is added, removed or rewritten: every row is as before but for
  \<open>last_accessed\<close>. Without \<open>force_recalculate\<close> and with a lookup that does not
  raise, the lookup before the computation sets \<open>last_accessed\<close> of the rows of the key
  to the time of the call. The database is as before when \<open>force_recalculate\<close> is set,
  when the lookup raises, or when no row of the key holds an empty grid.
\<close>

theorem failed_computation_caches_nothing:
  assumes "calculate_coverage_grid E city bls filters = None"
    and "get_or_calculate_coverage_grid md5 E io city bls filters force s = (r, s')"
    and "engine_calls s' \<noteq> engine_calls s"
  shows "r = None \<and> memory_cache s' = memory_cache s \<and>
    heatmap_cache (db_manager s') = heatmap_cache (db_manager s) \<and>
    map (cg_last_accessed_update (\<lambda>_. 0)) (coverage_grid_cache (db_manager s')) =
      map (cg_last_accessed_update (\<lambda>_. 0)) (coverage_grid_cache (db_manager s)) \<and>
    coverage_grid_cache (db_manager s') =
      (if force \<or> db_read_fails io then coverage_grid_cache (db_manager s)
       else map (\<lambda>row. if cg_cache_key row = generate_cache_key md5 city bls filters None
                        then row\<lparr>cg_last_accessed := now io\<rparr> else row)
                (coverage_grid_cache (db_manager s))) \<and>
    (force \<or> db_read_fails io \<or>
     (\<forall>row \<in> set (coverage_grid_cache (db_manager s)).
        cg_cache_key row = generate_cache_key md5 city bls filters None \<longrightarrow>
        cg_grid_data row \<noteq> []) \<longrightarrow>
       db_manager s' = db_manager s)"
proof -
  let ?k = "generate_cache_key md5 city bls filters None"
  let ?look = "get_cached_coverage_grid (db_read_fails io) (now io) ?k (db_manager s)"
  have miss: "force \<or> map_of (memory_cache s) ?k = None"
    using assms(2,3)
    by (auto simp: get_or_calculate_coverage_grid_def Let_def split: if_splits)
  have falsy: "force \<or> \<not> grid_truthy (fst ?look)"
    using assms(2,3) miss
    by (auto simp: get_or_calculate_coverage_grid_def Let_def
          split: if_splits option.splits prod.splits)
  have res: "r = None"
    and st: "s' = (add_to_preload_queue md5 (now io) city bls filters
                    (s\<lparr>db_manager := (if force then db_manager s else snd ?look)\<rparr>))
                  \<lparr>engine_calls := engine_calls s + 1\<rparr>"
    using assms(1,2) miss falsy
    by (auto simp: get_or_calculate_coverage_grid_def Let_def grid_truthy_def
          split: if_splits option.splits prod.splits)
  have mem: "memory_cache s' = memory_cache s"
    by (simp add: st)
  have rows: "heatmap_cache (db_manager s') = heatmap_cache (db_manager s) \<and>
    map (cg_last_accessed_update (\<lambda>_. 0)) (coverage_grid_cache (db_manager s')) =
      map (cg_last_accessed_update (\<lambda>_. 0)) (coverage_grid_cache (db_manager s))"
    by (simp add: st get_cached_coverage_grid_rows)
  have fail: "snd (get_cached_coverage_grid True (now io) ?k (db_manager s)) = db_manager s"
    by (simp add: get_cached_coverage_grid_def)
  have exact: "coverage_grid_cache (db_manager s') =
      (if force \<or> db_read_fails io then coverage_grid_cache (db_manager s)
       else map (\<lambda>row. if cg_cache_key row = ?k then row\<lparr>cg_last_accessed := now io\<rparr> else row)
                (coverage_grid_cache (db_manager s)))"
  proof (cases "force \<or> db_read_fails io")
    case True
    then show ?thesis using fail by (auto simp: st)
  next
    case False
    then show ?thesis by (simp add: st get_cached_coverage_grid_state)
  qed
  have same: "db_manager s' = db_manager s"
    if inv: "force \<or> db_read_fails io \<or>
       (\<forall>row \<in> set (coverage_grid_cache (db_manager s)).
          cg_cache_key row = ?k \<longrightarrow> cg_grid_data row \<noteq> [])"
  proof (cases "force \<or> db_read_fails io")
    case True
    then show ?thesis using fail by (auto simp: st)
  next
    case False
    with inv have inv': "\<forall>row \<in> set (coverage_grid_cache (db_manager s)).
          cg_cache_key row = ?k \<longrightarrow> cg_grid_data row \<noteq> []" by blast
    from False falsy have nt: "\<not> grid_truthy (fst ?look)" by simp
    have "fst ?look = None"
    proof (cases "fst ?look")
      case None
      then show ?thesis .
    next
      case (Some g)
      then obtain row where "row \<in> set (coverage_grid_cache (db_manager s))"
        "cg_cache_key row = ?k" "cg_grid_data row = g"
        by (auto simp: get_cached_coverage_grid_def
              split: if_splits option.splits dest: find_Some_mem)
      with inv' have "g \<noteq> []" by blast
      with Some nt show ?thesis by (simp add: grid_truthy_def)
    qed
    from get_cached_coverage_grid_miss [OF this] False show ?thesis by (simp add: st)
  qed
  from res mem rows exact same show ?thesis by blast
qed

theorem failed_computation_caches_nothing_witness:
  "calculate_coverage_grid failing_engine ''tehran'' [''restaurant''] [] = None \<and>
   fst (get_or_calculate_coverage_grid example_md5 failing_engine (example_io 5)
          ''tehran'' [''restaurant''] [] False (init_manager aged_database)) = None \<and>
   engine_calls (snd (get_or_calculate_coverage_grid example_md5 failing_engine (example_io 5)
          ''tehran'' [''restaurant''] [] False (init_manager aged_database))) = 1 \<and>
   engine_calls (init_manager aged_database) = 0 \<and>
   memory_cache (snd (get_or_calculate_coverage_grid example_md5 failing_engine (example_io 5)
          ''tehran'' [''restaurant''] [] False (init_manager aged_database))) = [] \<and>
   db_manager (snd (get_or_calculate_coverage_grid example_md5 failing_engine (example_io 5)
          ''tehran'' [''restaurant''] [] False (init_manager aged_database))) = aged_database"
proof -
  let ?k = "generate_cache_key example_md5 ''tehran'' [''restaurant''] [] None"
  let ?c = "get_or_calculate_coverage_grid example_md5 failing_engine (example_io 5)
     ''tehran'' [''restaurant''] [] False (init_manager aged_database)"
  have e: "calculate_coverage_grid failing_engine ''tehran'' [''restaurant''] [] = None"
    by (simp add: calculate_coverage_grid_def failing_engine_def)
  have f: "find (\<lambda>r. cg_cache_key r = ?k) (coverage_grid_cache aged_database) = None"
    using example_key_fresh by (simp add: aged_database_def example_row_def)
  have n: "engine_calls (snd ?c) = 1"
    using f
    by (simp add: get_or_calculate_coverage_grid_def init_manager_def
          get_cached_coverage_grid_def grid_truthy_def example_io_def Let_def e)
  have z: "engine_calls (init_manager aged_database) = 0"
    by (simp add: init_manager_def)
  have i: "\<forall>row \<in> set (coverage_grid_cache (db_manager (init_manager aged_database))).
        cg_cache_key row = ?k \<longrightarrow> cg_grid_data row \<noteq> []"
    by (simp add: init_manager_def aged_database_def example_row_def example_grid_def)
  have p: "?c = (fst ?c, snd ?c)" by simp
  have d: "engine_calls (snd ?c) \<noteq> engine_calls (init_manager aged_database)"
    using n z by simp
  from failed_computation_caches_nothing [OF e p d] i
  have "fst ?c = None \<and> memory_cache (snd ?c) = memory_cache (init_manager aged_database) \<and>
        db_manager (snd ?c) = db_manager (init_manager aged_database)"
    by blast
  with e n z show ?thesis
    by (simp add: init_manager_def)
qed

section \<open>Properties of generate_cache_key\<close>

lemma insort_key_related:
  assumes "list_all2 R xs ys" and "R x y" and "\<And>p q. R p q \<Longrightarrow> f p = f q"
  shows "list_all2 R (insort_key f x xs) (insort_key f y ys)"
  using assms(1)
proof (induction rule: list_all2_induct)
  case Nil
  then show ?case using assms(2) by simp
next
  case (Cons a xs b ys)
  from assms(3) [OF Cons.hyps(1)] assms(3) [OF assms(2)] have "f a = f b" "f x = f y" by simp_all
  with Cons assms(2) show ?case by simp
qed

lemma sort_key_related:
  assumes "list_all2 R xs ys" and "\<And>p q. R p q \<Longrightarrow> f p = f q"
  shows "list_all2 R (sort_key f xs) (sort_key f ys)"
  using assms(1)
proof (induction rule: list_all2_induct)
  case Nil
  then show ?case by simp
next
  case (Cons a xs b ys)
  then show ?case by (simp add: insort_key_related [OF _ _ assms(2)])
qed

lemma dumps_dict_related:
  assumes "list_all2 (\<lambda>p q. fst p = fst q \<and> dumps True (snd p) = dumps True (snd q)) kvs kvs'"
  shows "dumps True (PDict kvs) = dumps True (PDict kvs')"
proof -
  let ?R = "\<lambda>p q. fst p = fst q \<and> dumps True (snd p) = dumps True (snd q)"
  have "list_all2 ?R (sort_key fst kvs) (sort_key fst kvs')"
    by (rule sort_key_related [OF assms]) simp
  then have "list_all2 (\<lambda>p q. item_text p = item_text q) (sort_key fst kvs) (sort_key fst kvs')"
    by (rule list_all2_mono) (simp add: item_text_def)
  then have "map item_text (sort_key fst kvs) = map item_text (sort_key fst kvs')"
    by (induction rule: list_all2_induct) simp_all
  then show ?thesis by (simp add: item_text_def [abs_def])
qed

lemma dumps_reordered: "reordered a b \<Longrightarrow> dumps True a = dumps True b"
proof (induction rule: reordered.induct)
  case (same v)
  show ?case by simp
next
  case (items kvs kvs')
  then have "inj_on fst (set kvs')"
    by (metis distinct_map mset_eq_setD)
  with items(2) have "sort_key fst kvs' = sort_key fst kvs"
    by (rule sort_key_eq_sort_key)
  then show ?case by simp
next
  case (in_dict v v' xs k ys)
  show ?case
    by (rule dumps_dict_related)
       (simp add: list_all2_appendI list_all2_same in_dict.IH)
next
  case (in_list v v' vs ws)
  then show ?case by simp
next
  case (chain a b c)
  then show ?case by simp
qed

lemma sort_mset_eq: "mset xs = mset ys \<Longrightarrow> sort xs = sort ys"
  by (metis sorted_list_of_multiset_mset)

text \<open>
  C6. \<open>generate_cache_key\<close> is a function of its arguments, and it returns the same
  key when the business lines are reordered, when the items of \<open>vendor_filters\<close> and of
  \<open>additional_params\<close> are reordered at any depth, and when \<open>additional_params\<close> is
  \<open>None\<close> instead of the empty dict: the two optional arguments are compared as the
  dicts they stand for.
\<close>

theorem generate_cache_key_order_insensitive:
  assumes "mset bls' = mset bls"
    and "reordered (PDict filters) (PDict filters')"
    and "reordered (PDict (case extra of None \<Rightarrow> [] | Some d \<Rightarrow> d))
                   (PDict (case extra' of None \<Rightarrow> [] | Some d \<Rightarrow> d))"
  shows "generate_cache_key md5 city bls' filters' extra' =
         generate_cache_key md5 city bls filters extra"
proof -
  let ?ad = "\<lambda>e. (case e of None \<Rightarrow> [] | Some d \<Rightarrow> if d \<noteq> [] then d else [])"
  have ad: "?ad e = (case e of None \<Rightarrow> [] | Some d \<Rightarrow> d)" for e :: "pydict option"
    by (simp split: option.splits)
  have bl: "(if bls' \<noteq> [] then sort bls' else []) = (if bls \<noteq> [] then sort bls else [])"
    using assms(1) sort_mset_eq [OF assms(1)] by (auto dest: mset_eq_length)
  have vf: "dumps True (PDict filters') = dumps True (PDict filters)"
    using dumps_reordered [OF assms(2)] by (simp only:)
  have ex: "dumps True (PDict (?ad extra')) = dumps True (PDict (?ad extra))"
    using dumps_reordered [OF assms(3)] by (simp only: ad)
  show ?thesis
    unfolding generate_cache_key_def Let_def
    by (rule arg_cong [where f = md5], rule dumps_dict_related)
       (simp del: dumps.simps add: bl vf ex)
qed


text \<open>The text that is hashed for tehran, two business lines and the first common filter.\<close>

lemma example_key_text:
  \<open>generate_cache_key example_md5 ''tehran'' [''restaurant'', ''coffee''] (hd common_filters) None =
   ''{"additional": {}, "business_lines": ["coffee", "restaurant"], "city": "tehran", "vendor_filters": {"grades": ["A", "A+"], "is_open": null, "status_ids": [5], "visible": 1}}''\<close>
  by code_simp

theorem generate_cache_key_order_insensitive_witness:
  "mset [''coffee'', ''restaurant''] = mset [''restaurant'', ''coffee''] \<and>
   reordered (PDict (hd common_filters)) (PDict (rev (hd common_filters))) \<and>
   reordered (PDict [(''range'', PDict [(''from'', PInt 1), (''to'', PInt 2)])])
             (PDict [(''range'', PDict [(''to'', PInt 2), (''from'', PInt 1)])]) \<and>
   generate_cache_key example_md5 ''tehran'' [''coffee'', ''restaurant'']
     (rev (hd common_filters)) (Some [(''range'', PDict [(''to'', PInt 2), (''from'', PInt 1)])]) =
   generate_cache_key example_md5 ''tehran'' [''restaurant'', ''coffee'']
     (hd common_filters) (Some [(''range'', PDict [(''from'', PInt 1), (''to'', PInt 2)])]) \<and>
   generate_cache_key example_md5 ''tehran'' [''restaurant''] (hd common_filters) (Some []) =
   generate_cache_key example_md5 ''tehran'' [''restaurant''] (hd common_filters) None"
proof -
  have b: "mset [''coffee'', ''restaurant''] = mset [''restaurant'', ''coffee'']"
    by simp
  have f: "reordered (PDict (hd common_filters)) (PDict (rev (hd common_filters)))"
    by (rule reordered.items) (simp_all add: common_filters_def)
  have "reordered (PDict [(''from'', PInt 1), (''to'', PInt 2)])
                  (PDict [(''to'', PInt 2), (''from'', PInt 1)])"
    by (rule reordered.items) simp_all
  from reordered.in_dict [OF this, of "[]" "''range''" "[]"]
  have e: "reordered (PDict [(''range'', PDict [(''from'', PInt 1), (''to'', PInt 2)])])
             (PDict [(''range'', PDict [(''to'', PInt 2), (''from'', PInt 1)])])"
    by simp
  have n: "reordered (PDict (case None of None \<Rightarrow> [] | Some d \<Rightarrow> d))
             (PDict (case Some [] of None \<Rightarrow> [] | Some d \<Rightarrow> d))"
    by (simp add: reordered.same)
  have r: "reordered (PDict (hd common_filters)) (PDict (hd common_filters))"
    by (rule reordered.same)
  show ?thesis
    using b f e
      generate_cache_key_order_insensitive [OF b f, of
        "Some [(''range'', PDict [(''from'', PInt 1), (''to'', PInt 2)])]"
        "Some [(''range'', PDict [(''to'', PInt 2), (''from'', PInt 1)])]" example_md5 "''tehran''"]
      generate_cache_key_order_insensitive [OF refl r n, of example_md5 "''tehran''" "[''restaurant'']"]
    by simp
qed

end
